theory Spec2Isabelle
  imports Main "HOL-Library.Word" "HOL-Library.AList"
begin

section \<open>The user and profile service of main.py\<close>

text \<open>
  main.py keeps four process-wide dictionaries (users, user_secrets, profiles,
  profiles_by_user) and ten request handlers over them. A handler is modelled as a
  function from the stores to an outcome and the stores after the request: a raised
  HTTPException is the outcome \<open>Inl\<close>, and the stores returned with it are the
  stores at the point of the raise, so a write made before a raise would be visible.
\<close>

subsection \<open>Identifiers, strings and dictionaries\<close>

type_synonym uuid = "128 word"

text \<open>
  A Python dict keeps its keys in insertion order: an association list, where
  assignment replaces the value of a present key in place and appends an absent one
  (\<open>AList.update\<close>), and pop removes the key (\<open>AList.delete\<close>).
\<close>

type_synonym 'v dict = "(uuid \<times> 'v) list"

definition dict_contains :: "uuid \<Rightarrow> 'v dict \<Rightarrow> bool" where
  "dict_contains k d = (map_of d k \<noteq> None)"

definition dict_values :: "'v dict \<Rightarrow> 'v list" where
  "dict_values d = map snd d"

text \<open>
  The case conversion \<open>str.lower()\<close> is a built-in of Python, fixed by the Unicode
  tables of the interpreter. The helpers and handlers below take it as their first
  parameter \<open>lower\<close>, and every theorem about them is proved for an arbitrary
  function \<open>lower\<close>: it holds whatever \<open>str.lower()\<close> does to a string.

  The worked examples need a concrete function to compute with. They pass
  \<open>str_lower\<close>, which is \<open>str.lower()\<close> on the strings that HOL has: a character
  is a code point from 0 to 255, and on these \<open>str.lower()\<close> works character by
  character, moving the letters A to Z (65 to 90) and the letters from 192 to 222
  other than the sign 215 up by 32 and leaving every other character.
\<close>

definition lower_char :: "char \<Rightarrow> char" where
  "lower_char c =
     (let n = (of_char c :: nat)
      in if (65 \<le> n \<and> n \<le> 90) \<or> (192 \<le> n \<and> n \<le> 222 \<and> n \<noteq> 215)
         then char_of (n + 32) else c)"

definition str_lower :: "string \<Rightarrow> string" where
  "str_lower s = map lower_char s"

subsection \<open>Records of models/user.py and models/profile.py\<close>

text \<open>
  Modelled from the spec: the declarations of UserCreate, UserUpdate, UserRead,
  ProfileCreate, ProfileUpdate and ProfileRead (models/user.py, models/profile.py) are
  missing. The spec gives a user the fields id, name, email, phone, membership tier
  (FREE, PRO or PROMAX) and creation timestamp, with the password carried only by the
  creation request and the replacement password only by the update request; it gives
  a profile the fields id, user_id and username plus descriptive fields, and a profile
  patch whose merged dictionary may carry user_id. Email, phone and username are plain
  strings, as the helpers of main.py annotate them. The descriptive fields are kept as
  a dictionary from field name to value.
\<close>

datatype membership_tier = FREE | PRO | PROMAX

fun tier_name :: "membership_tier \<Rightarrow> string" where
  "tier_name FREE = ''FREE''"
| "tier_name PRO = ''PRO''"
| "tier_name PROMAX = ''PROMAX''"

record user_read =
  u_id :: uuid
  u_name :: string
  u_email :: string
  u_phone :: string
  u_membership_tier :: membership_tier
  u_created_at :: nat

record user_create =
  uc_name :: string
  uc_email :: string
  uc_phone :: string
  uc_membership_tier :: membership_tier
  uc_password :: string

text \<open>
  A patch is the dictionary \<open>model_dump(exclude_unset=True)\<close> yields: a field is
  \<open>None\<close> when its key is absent, \<open>Some v\<close> when the request set it to \<open>v\<close>.
  A key set to null is left out: what the record constructors make of it is decided
  in the missing models.
\<close>

record user_update =
  uu_name :: "string option"
  uu_email :: "string option"
  uu_phone :: "string option"
  uu_membership_tier :: "membership_tier option"
  uu_new_password :: "string option"

record profile_read =
  p_id :: uuid
  p_user_id :: uuid
  p_username :: string
  p_details :: "(string \<times> string) list"

record profile_create =
  pc_user_id :: uuid
  pc_username :: string
  pc_details :: "(string \<times> string) list"

record profile_update =
  pu_user_id :: "uuid option"
  pu_username :: "string option"
  pu_details :: "(string \<times> string) list"

datatype error = HTTPException nat string

subsection \<open>The in-memory stores\<close>

record stores =
  users :: "user_read dict"
  user_secrets :: "string dict"
  profiles :: "profile_read dict"
  profiles_by_user :: "uuid dict"

definition empty_stores :: stores where
  "empty_stores = \<lparr>users = [], user_secrets = [], profiles = [], profiles_by_user = []\<rparr>"

subsection \<open>Helper functions\<close>

text \<open>
  The three scans run over the values in order and return at the first hit. The test
  \<open>exclude_id is None or u.id != exclude_id\<close> is \<open>not_excluded\<close>.
\<close>

fun not_excluded :: "uuid option \<Rightarrow> uuid \<Rightarrow> bool" where
  "not_excluded None k = True"
| "not_excluded (Some x) k = (k \<noteq> x)"

fun email_scan ::
  "(string \<Rightarrow> string) \<Rightarrow> string \<Rightarrow> uuid option \<Rightarrow> user_read list \<Rightarrow> bool" where
  "email_scan lower e exclude_id [] = False"
| "email_scan lower e exclude_id (u # us) =
     (if lower (u_email u) = e \<and> not_excluded exclude_id (u_id u) then True
      else email_scan lower e exclude_id us)"

definition email_exists ::
  "(string \<Rightarrow> string) \<Rightarrow> stores \<Rightarrow> string \<Rightarrow> uuid option \<Rightarrow> bool" where
  "email_exists lower s email exclude_id =
     email_scan lower (lower email) exclude_id (dict_values (users s))"

fun phone_scan :: "string \<Rightarrow> uuid option \<Rightarrow> user_read list \<Rightarrow> bool" where
  "phone_scan ph exclude_id [] = False"
| "phone_scan ph exclude_id (u # us) =
     (if u_phone u = ph \<and> not_excluded exclude_id (u_id u) then True
      else phone_scan ph exclude_id us)"

definition phone_exists :: "stores \<Rightarrow> string \<Rightarrow> uuid option \<Rightarrow> bool" where
  "phone_exists s phone exclude_id = phone_scan phone exclude_id (dict_values (users s))"

fun username_scan ::
  "(string \<Rightarrow> string) \<Rightarrow> string \<Rightarrow> uuid option \<Rightarrow> profile_read dict \<Rightarrow> bool" where
  "username_scan lower target exclude_id [] = False"
| "username_scan lower target exclude_id ((pid, prof) # ps) =
     (if lower (p_username prof) = target \<and> not_excluded exclude_id pid then True
      else username_scan lower target exclude_id ps)"

definition username_exists ::
  "(string \<Rightarrow> string) \<Rightarrow> stores \<Rightarrow> string \<Rightarrow> uuid option \<Rightarrow> bool" where
  "username_exists lower s username exclude_id =
     username_scan lower (lower username) exclude_id (profiles s)"

text \<open>
  \<open>changes.get(k)\<close> followed by \<open>if v and ...\<close>: the guard is false for an absent
  key and for the empty string.
\<close>

fun truthy :: "string option \<Rightarrow> bool" where
  "truthy None = False"
| "truthy (Some v) = (v \<noteq> [])"

text \<open>\<open>current.update(changes)\<close>, one key at a time.\<close>

fun merged :: "'a option \<Rightarrow> 'a \<Rightarrow> 'a" where
  "merged None cur = cur"
| "merged (Some v) cur = v"

definition merge_details ::
  "(string \<times> string) list \<Rightarrow> (string \<times> string) list \<Rightarrow> (string \<times> string) list" where
  "merge_details changes cur = fold (\<lambda>(k, v). AList.update k v) changes cur"

subsection \<open>Users CRUD\<close>

text \<open>
  \<open>UserRead(**payload.model_dump(exclude={"password"}))\<close> fills in the id and the
  creation timestamp by default; they are the parameters \<open>new_id\<close> and \<open>now\<close>
  (for the id that is generated, see \<open>new_unique_id\<close> below).
\<close>

definition user_read_of :: "uuid \<Rightarrow> nat \<Rightarrow> user_create \<Rightarrow> user_read" where
  "user_read_of new_id now payload =
     \<lparr>u_id = new_id, u_name = uc_name payload, u_email = uc_email payload,
      u_phone = uc_phone payload, u_membership_tier = uc_membership_tier payload,
      u_created_at = now\<rparr>"

definition create_user ::
  "(string \<Rightarrow> string) \<Rightarrow> uuid \<Rightarrow> nat \<Rightarrow> user_create \<Rightarrow> stores \<Rightarrow> (error + user_read) \<times> stores" where
  "create_user lower new_id now payload s =
     (if email_exists lower s (uc_email payload) None
        then (Inl (HTTPException 400 ''Email already exists''), s)
      else if phone_exists s (uc_phone payload) None
        then (Inl (HTTPException 400 ''Phone already exists''), s)
      else
        let user = user_read_of new_id now payload;
            s1 = s\<lparr>users := AList.update (u_id user) user (users s)\<rparr>;
            s2 = s1\<lparr>user_secrets := AList.update (u_id user) (uc_password payload) (user_secrets s1)\<rparr>
        in (Inr user, s2))"

definition list_users ::
  "(string \<Rightarrow> string) \<Rightarrow> string option \<Rightarrow> string option \<Rightarrow> string option \<Rightarrow> string option \<Rightarrow> stores
     \<Rightarrow> user_read list" where
  "list_users lower name email phone tier s =
     (let results = dict_values (users s);
          results = (case name of None \<Rightarrow> results
                     | Some n \<Rightarrow> filter (\<lambda>u. u_name u = n) results);
          results = (case email of None \<Rightarrow> results
                     | Some e \<Rightarrow> filter (\<lambda>u. lower (u_email u) = lower e) results);
          results = (case phone of None \<Rightarrow> results
                     | Some ph \<Rightarrow> filter (\<lambda>u. u_phone u = ph) results);
          results = (case tier of None \<Rightarrow> results
                     | Some t \<Rightarrow> filter (\<lambda>u. tier_name (u_membership_tier u) = t) results)
      in results)"

definition get_user :: "uuid \<Rightarrow> stores \<Rightarrow> error + user_read" where
  "get_user user_id s =
     (case map_of (users s) user_id of
        None \<Rightarrow> Inl (HTTPException 404 ''User not found'')
      | Some u \<Rightarrow> Inr u)"

definition update_user ::
  "(string \<Rightarrow> string) \<Rightarrow> uuid \<Rightarrow> user_update \<Rightarrow> stores \<Rightarrow> (error + user_read) \<times> stores" where
  "update_user lower user_id patch s =
     (case map_of (users s) user_id of
        None \<Rightarrow> (Inl (HTTPException 404 ''User not found''), s)
      | Some current \<Rightarrow>
          if truthy (uu_email patch) \<and> email_exists lower s (the (uu_email patch)) (Some user_id)
            then (Inl (HTTPException 400 ''Email already exists''), s)
          else if truthy (uu_phone patch) \<and> phone_exists s (the (uu_phone patch)) (Some user_id)
            then (Inl (HTTPException 400 ''Phone already exists''), s)
          else
            let updated = current\<lparr>u_name := merged (uu_name patch) (u_name current),
                                  u_email := merged (uu_email patch) (u_email current),
                                  u_phone := merged (uu_phone patch) (u_phone current),
                                  u_membership_tier :=
                                    merged (uu_membership_tier patch) (u_membership_tier current)\<rparr>;
                s1 = s\<lparr>users := AList.update user_id updated (users s)\<rparr>;
                s2 = (case uu_new_password patch of
                        None \<Rightarrow> s1
                      | Some pw \<Rightarrow> s1\<lparr>user_secrets := AList.update user_id pw (user_secrets s1)\<rparr>)
            in (Inr updated, s2))"

definition delete_user :: "uuid \<Rightarrow> stores \<Rightarrow> (error + unit) \<times> stores" where
  "delete_user user_id s =
     (if \<not> dict_contains user_id (users s)
        then (Inl (HTTPException 404 ''User not found''), s)
      else
        let s1 = s\<lparr>users := AList.delete user_id (users s)\<rparr>;
            s2 = s1\<lparr>user_secrets := AList.delete user_id (user_secrets s1)\<rparr>
        in (Inr (), s2))"

subsection \<open>Profile CRUD\<close>

text \<open>\<open>ProfileRead(**payload.model_dump())\<close>, with the id it is given by default.\<close>

definition profile_read_of :: "uuid \<Rightarrow> profile_create \<Rightarrow> profile_read" where
  "profile_read_of new_id payload =
     \<lparr>p_id = new_id, p_user_id = pc_user_id payload, p_username = pc_username payload,
      p_details = pc_details payload\<rparr>"

definition create_profile ::
  "(string \<Rightarrow> string) \<Rightarrow> uuid \<Rightarrow> profile_create \<Rightarrow> stores \<Rightarrow> (error + profile_read) \<times> stores" where
  "create_profile lower new_id payload s =
     (if \<not> dict_contains (pc_user_id payload) (users s)
        then (Inl (HTTPException 400 ''User does not exist''), s)
      else if dict_contains (pc_user_id payload) (profiles_by_user s)
        then (Inl (HTTPException 400 ''User already has a profile''), s)
      else if username_exists lower s (pc_username payload) None
        then (Inl (HTTPException 400 ''Username already exists''), s)
      else
        let profile = profile_read_of new_id payload;
            s1 = s\<lparr>profiles := AList.update (p_id profile) profile (profiles s)\<rparr>;
            s2 = s1\<lparr>profiles_by_user :=
                      AList.update (p_user_id profile) (p_id profile) (profiles_by_user s1)\<rparr>
        in (Inr profile, s2))"

definition list_profiles :: "(string \<Rightarrow> string) \<Rightarrow> uuid option \<Rightarrow> string option \<Rightarrow> stores \<Rightarrow> profile_read list" where
  "list_profiles lower user_id username s =
     (let results = dict_values (profiles s);
          results = (case user_id of None \<Rightarrow> results
                     | Some k \<Rightarrow> filter (\<lambda>p. p_user_id p = k) results);
          results = (case username of None \<Rightarrow> results
                     | Some n \<Rightarrow> filter (\<lambda>p. lower (p_username p) = lower n) results)
      in results)"

definition get_profile :: "uuid \<Rightarrow> stores \<Rightarrow> error + profile_read" where
  "get_profile profile_id s =
     (case map_of (profiles s) profile_id of
        None \<Rightarrow> Inl (HTTPException 404 ''Profile not found'')
      | Some p \<Rightarrow> Inr p)"

definition update_profile ::
  "(string \<Rightarrow> string) \<Rightarrow> uuid \<Rightarrow> profile_update \<Rightarrow> stores \<Rightarrow> (error + profile_read) \<times> stores" where
  "update_profile lower profile_id patch s =
     (case map_of (profiles s) profile_id of
        None \<Rightarrow> (Inl (HTTPException 404 ''Profile not found''), s)
      | Some current \<Rightarrow>
          if truthy (pu_username patch)
             \<and> username_exists lower s (the (pu_username patch)) (Some profile_id)
            then (Inl (HTTPException 400 ''Username already exists''), s)
          else
            let updated = current\<lparr>p_user_id := merged (pu_user_id patch) (p_user_id current),
                                  p_username := merged (pu_username patch) (p_username current),
                                  p_details := merge_details (pu_details patch) (p_details current)\<rparr>;
                s1 = s\<lparr>profiles := AList.update profile_id updated (profiles s)\<rparr>
            in (Inr updated, s1))"

definition delete_profile :: "uuid \<Rightarrow> stores \<Rightarrow> (error + unit) \<times> stores" where
  "delete_profile profile_id s =
     (case map_of (profiles s) profile_id of
        None \<Rightarrow> (Inl (HTTPException 404 ''Profile not found''), s)
      | Some prof \<Rightarrow>
          let s1 = s\<lparr>profiles := AList.delete profile_id (profiles s)\<rparr>;
              s2 = s1\<lparr>profiles_by_user := AList.delete (p_user_id prof) (profiles_by_user s1)\<rparr>
          in (Inr (), s2))"

subsection \<open>Generated ids\<close>

text \<open>
  Modelled from the spec: the id that UserRead and ProfileRead give a new record by
  default (models/user.py and models/profile.py, missing). The spec says that creation
  generates a new unique id. The generator is given the ids issued so far and returns
  the first of the ids 0, 1, 2, ..., one more of them than there are ids issued, that
  is not among those. The handlers take the id of the new record as a parameter, so
  that a history can also be given the ids of any other generator.
\<close>

definition new_unique_id :: "uuid list \<Rightarrow> uuid" where
  "new_unique_id used =
     (case find (\<lambda>k. k \<notin> set used) (map word_of_nat [0..<Suc (length used)]) of
        Some k \<Rightarrow> k
      | None \<Rightarrow> 0)"

subsection \<open>Sequences of requests\<close>

text \<open>
  A request that changes the stores, with the values the handler takes. The reads
  (list and get) leave the stores as they are and are not part of a history.
\<close>

datatype request =
    CreateUser uuid nat user_create
  | UpdateUser uuid user_update
  | DeleteUser uuid
  | CreateProfile uuid profile_create
  | UpdateProfile uuid profile_update
  | DeleteProfile uuid

fun handle :: "(string \<Rightarrow> string) \<Rightarrow> request \<Rightarrow> stores \<Rightarrow> stores" where
  "handle lower (CreateUser new_id now payload) s = snd (create_user lower new_id now payload s)"
| "handle lower (UpdateUser user_id patch) s = snd (update_user lower user_id patch s)"
| "handle lower (DeleteUser user_id) s = snd (delete_user user_id s)"
| "handle lower (CreateProfile new_id payload) s = snd (create_profile lower new_id payload s)"
| "handle lower (UpdateProfile profile_id patch) s = snd (update_profile lower profile_id patch s)"
| "handle lower (DeleteProfile profile_id) s = snd (delete_profile profile_id s)"

text \<open>The request creates a user under the id \<open>k\<close>.\<close>

fun creates_user :: "uuid \<Rightarrow> request \<Rightarrow> bool" where
  "creates_user k (CreateUser new_id now payload) = (new_id = k)"
| "creates_user k r = False"

definition run :: "(string \<Rightarrow> string) \<Rightarrow> request list \<Rightarrow> stores \<Rightarrow> stores" where
  "run lower rs s = fold (handle lower) rs s"

subsection \<open>Notions of the specification\<close>

text \<open>
  An email is in use when a live user has it up to case, a phone when a live user has
  it, a username is taken when a live profile has it up to case.
\<close>

definition email_in_use :: "(string \<Rightarrow> string) \<Rightarrow> stores \<Rightarrow> string \<Rightarrow> bool" where
  "email_in_use lower s e = (\<exists>u\<in>set (dict_values (users s)). lower (u_email u) = lower e)"

definition phone_in_use :: "stores \<Rightarrow> string \<Rightarrow> bool" where
  "phone_in_use s ph = (\<exists>u\<in>set (dict_values (users s)). u_phone u = ph)"

definition username_taken :: "(string \<Rightarrow> string) \<Rightarrow> stores \<Rightarrow> string \<Rightarrow> bool" where
  "username_taken lower s n = (\<exists>p\<in>set (dict_values (profiles s)). lower (p_username p) = lower n)"

subsection \<open>Uniqueness of live records\<close>

text \<open>
  No two live users share an email up to case or a phone; no two live profiles share
  a username up to case or an owner. Two records are different when their keys are.
\<close>

definition users_unique :: "(string \<Rightarrow> string) \<Rightarrow> stores \<Rightarrow> bool" where
  "users_unique lower s =
     (\<forall>(k, u)\<in>set (users s). \<forall>(k', u')\<in>set (users s).
        k \<noteq> k' \<longrightarrow> lower (u_email u) \<noteq> lower (u_email u') \<and> u_phone u \<noteq> u_phone u')"

definition profiles_unique :: "(string \<Rightarrow> string) \<Rightarrow> stores \<Rightarrow> bool" where
  "profiles_unique lower s =
     (\<forall>(k, p)\<in>set (profiles s). \<forall>(k', p')\<in>set (profiles s).
        k \<noteq> k' \<longrightarrow> lower (p_username p) \<noteq> lower (p_username p')
                    \<and> p_user_id p \<noteq> p_user_id p')"

text \<open>
  What holds of the dictionaries along the way: a key occurs once, a public record is
  stored under its own id, and the index sends the owner of every live profile to
  that profile.
\<close>

definition users_keyed :: "stores \<Rightarrow> bool" where
  "users_keyed s = (\<forall>(k, u)\<in>set (users s). u_id u = k)"

definition index_covers :: "stores \<Rightarrow> bool" where
  "index_covers s =
     (\<forall>(k, p)\<in>set (profiles s). map_of (profiles_by_user s) (p_user_id p) = Some k)"

definition users_inv :: "(string \<Rightarrow> string) \<Rightarrow> stores \<Rightarrow> bool" where
  "users_inv lower s = (distinct (map fst (users s)) \<and> users_keyed s \<and> users_unique lower s)"

definition profiles_inv :: "(string \<Rightarrow> string) \<Rightarrow> stores \<Rightarrow> bool" where
  "profiles_inv lower s = (distinct (map fst (profiles s)) \<and> index_covers s \<and> profiles_unique lower s)"

text \<open>
  An update request is guarded when its patch sets neither email, phone nor username
  to the empty string and carries no user_id. Every other request is guarded.
\<close>

fun guarded :: "request \<Rightarrow> bool" where
  "guarded (UpdateUser user_id patch) =
     (uu_email patch \<noteq> Some [] \<and> uu_phone patch \<noteq> Some [])"
| "guarded (UpdateProfile profile_id patch) =
     (pu_username patch \<noteq> Some [] \<and> pu_user_id patch = None)"
| "guarded r = True"

subsection \<open>A small history\<close>

text \<open>
  Two users and one profile, as in the scenario of the specification: Alice and Bob
  are created, then a profile for Alice.
\<close>

definition alice_req :: user_create where
  "alice_req = \<lparr>uc_name = ''Alice'', uc_email = ''a@x.com'', uc_phone = ''1'',
                 uc_membership_tier = FREE, uc_password = ''pw-a''\<rparr>"

definition bob_req :: user_create where
  "bob_req = \<lparr>uc_name = ''Bob'', uc_email = ''b@x.com'', uc_phone = ''2'',
               uc_membership_tier = PRO, uc_password = ''pw-b''\<rparr>"

definition alice_profile_req :: profile_create where
  "alice_profile_req = \<lparr>pc_user_id = 1, pc_username = ''alice'',
                         pc_details = [(''bio'', ''hi''), (''city'', ''NYC'')]\<rparr>"

definition scenario :: "request list" where
  "scenario = [CreateUser 1 100 alice_req, CreateUser 2 101 bob_req,
               CreateProfile 10 alice_profile_req]"

definition alice :: user_read where
  "alice = \<lparr>u_id = 1, u_name = ''Alice'', u_email = ''a@x.com'', u_phone = ''1'',
             u_membership_tier = FREE, u_created_at = 100\<rparr>"

definition bob :: user_read where
  "bob = \<lparr>u_id = 2, u_name = ''Bob'', u_email = ''b@x.com'', u_phone = ''2'',
           u_membership_tier = PRO, u_created_at = 101\<rparr>"

definition alice_profile :: profile_read where
  "alice_profile = \<lparr>p_id = 10, p_user_id = 1, p_username = ''alice'',
                     p_details = [(''bio'', ''hi''), (''city'', ''NYC'')]\<rparr>"

definition scenario_stores :: stores where
  "scenario_stores = \<lparr>users = [(1, alice), (2, bob)],
                       user_secrets = [(1, ''pw-a''), (2, ''pw-b'')],
                       profiles = [(10, alice_profile)],
                       profiles_by_user = [(1, 10)]\<rparr>"

definition name_patch :: user_update where
  "name_patch = \<lparr>uu_name = Some ''Alicia'', uu_email = None, uu_phone = None,
                  uu_membership_tier = None, uu_new_password = None\<rparr>"

definition bio_patch :: profile_update where
  "bio_patch = \<lparr>pu_user_id = None, pu_username = None, pu_details = [(''bio'', ''yo'')]\<rparr>"

definition carol_req :: user_create where
  "carol_req = \<lparr>uc_name = ''Carol'', uc_email = ''c@x.com'', uc_phone = ''3'',
                 uc_membership_tier = PROMAX, uc_password = ''pw-c''\<rparr>"

definition later_requests :: "request list" where
  "later_requests = [UpdateUser 2 name_patch, CreateUser 3 102 carol_req,
                     UpdateProfile 10 bio_patch]"

text \<open>Patches that set a phone, a username or the owner of a profile.\<close>

definition empty_phone_patch :: user_update where
  "empty_phone_patch = \<lparr>uu_name = None, uu_email = None, uu_phone = Some '''',
                         uu_membership_tier = None, uu_new_password = None\<rparr>"

definition empty_username_patch :: profile_update where
  "empty_username_patch = \<lparr>pu_user_id = None, pu_username = Some '''', pu_details = []\<rparr>"

definition owner_patch :: profile_update where
  "owner_patch = \<lparr>pu_user_id = Some 2, pu_username = None, pu_details = []\<rparr>"

definition bob_profile_req :: profile_create where
  "bob_profile_req = \<lparr>pc_user_id = 2, pc_username = ''bob'', pc_details = []\<rparr>"

definition dup_email_req :: user_create where
  "dup_email_req = \<lparr>uc_name = ''Alice'', uc_email = ''A@X.COM'', uc_phone = ''3'',
                     uc_membership_tier = FREE, uc_password = ''pw-a''\<rparr>"

definition carol :: user_read where
  "carol = \<lparr>u_id = 0, u_name = ''Carol'', u_email = ''c@x.com'', u_phone = ''3'',
             u_membership_tier = PROMAX, u_created_at = 102\<rparr>"

section \<open>Properties\<close>

subsection \<open>Evaluation and the scans\<close>

lemmas lower_eval = str_lower_def lower_char_def char_of_def bit_iff_odd

lemmas handler_defs =
  create_user_def update_user_def delete_user_def create_profile_def update_profile_def
  delete_profile_def get_user_def get_profile_def list_users_def list_profiles_def
  email_exists_def phone_exists_def username_exists_def dict_contains_def dict_values_def
  user_read_of_def profile_read_of_def merge_details_def run_def Let_def

lemmas example_defs =
  alice_req_def bob_req_def alice_profile_req_def scenario_def alice_def bob_def
  alice_profile_def scenario_stores_def empty_stores_def name_patch_def bio_patch_def
  carol_req_def later_requests_def empty_phone_patch_def empty_username_patch_def
  owner_patch_def bob_profile_req_def dup_email_req_def carol_def

lemma run_scenario: "run str_lower scenario empty_stores = scenario_stores"
  by (simp add: handler_defs example_defs lower_eval)

lemma email_scan_iff:
  "email_scan lower e x us \<longleftrightarrow> (\<exists>u\<in>set us. lower (u_email u) = e \<and> not_excluded x (u_id u))"
  by (induction us) auto

lemma phone_scan_iff:
  "phone_scan ph x us \<longleftrightarrow> (\<exists>u\<in>set us. u_phone u = ph \<and> not_excluded x (u_id u))"
  by (induction us) auto

lemma username_scan_iff:
  "username_scan lower t x ps \<longleftrightarrow>
     (\<exists>(pid, prof)\<in>set ps. lower (p_username prof) = t \<and> not_excluded x pid)"
  by (induction ps) auto

lemma email_exists_None: "email_exists lower s e None = email_in_use lower s e"
  by (simp add: email_exists_def email_in_use_def email_scan_iff)

lemma phone_exists_None: "phone_exists s ph None = phone_in_use s ph"
  by (simp add: phone_exists_def phone_in_use_def phone_scan_iff)

lemma username_exists_None: "username_exists lower s n None = username_taken lower s n"
  by (force simp: username_exists_def username_taken_def username_scan_iff dict_values_def)

subsection \<open>Creating a user\<close>

text \<open>
  The generator returns an id that is not among the ids issued, as long as fewer than
  all of the \<open>2 ^ 128\<close> ids are issued; assigning to a key that a dictionary does
  not have appends the entry.
\<close>

lemma new_unique_id_fresh:
  assumes "length used < 2 ^ 128"
  shows "new_unique_id used \<notin> set used"
proof -
  let ?cands = "map word_of_nat [0..<Suc (length used)] :: uuid list"
  have sub: "{0..<Suc (length used)} \<subseteq> {0..<2 ^ LENGTH(128)}"
    using assms by auto
  have "inj_on (word_of_nat :: nat \<Rightarrow> uuid) {0..<Suc (length used)}"
    by (rule inj_on_subset [OF inj_on_word_of_nat sub])
  then have "distinct ?cands" by (simp add: distinct_map del: upt_Suc)
  then have "card (set ?cands) = length ?cands" by (rule distinct_card)
  then have "card (set ?cands) = Suc (length used)" by (simp del: upt_Suc)
  moreover have "card (set used) \<le> length used" by (rule card_length)
  ultimately have "\<not> set ?cands \<subseteq> set used"
    by (metis List.finite_set card_mono not_less_eq_eq)
  then obtain k where "k \<in> set ?cands" "k \<notin> set used" by blast
  then obtain k' where "find (\<lambda>k. k \<notin> set used) ?cands = Some k'"
    by (cases "find (\<lambda>k. k \<notin> set used) ?cands") (auto simp: find_None_iff)
  moreover from this have "k' \<notin> set used" by (auto simp: find_Some_iff)
  ultimately show ?thesis by (simp add: new_unique_id_def)
qed

lemma update_fresh: "k \<notin> fst ` set al \<Longrightarrow> AList.update k v al = al @ [(k, v)]"
  by (induction al) auto

text \<open>
  With an id that is no key of the user store, whatever generator issued it, a request
  that passes the two scans appends the record.
\<close>

lemma create_user_appends:
  assumes "\<not> email_in_use lower s (uc_email payload)"
    and "\<not> phone_in_use s (uc_phone payload)"
    and "new_id \<notin> fst ` set (users s)"
  shows "\<exists>s'. create_user lower new_id now payload s = (Inr (user_read_of new_id now payload), s')
         \<and> u_id (user_read_of new_id now payload) = new_id
         \<and> users s' = users s @ [(new_id, user_read_of new_id now payload)]
         \<and> map_of (user_secrets s') new_id = Some (uc_password payload)
         \<and> (\<forall>k. k \<noteq> new_id \<longrightarrow> map_of (user_secrets s') k = map_of (user_secrets s) k)
         \<and> profiles s' = profiles s \<and> profiles_by_user s' = profiles_by_user s"
  using assms
  by (simp add: create_user_def email_exists_None phone_exists_None Let_def
        AList.update_conv' update_fresh user_read_of_def)

text \<open>
  C6: creating a user fails with status 400, and leaves the stores as they were,
  whenever the requested email (up to case) or the requested phone is in use by a live
  user. Otherwise the id generated for the record is new: it is none of the ids issued
  so far, which include those of the live users, and no key of the user store. The
  public record built from the request is stored under that id as a new entry, after
  the records already there; the password is stored under the same id in the secret
  store; the other secrets and the profile stores stay as they are; and the public
  record, which has no password field, is returned.
\<close>

theorem create_user_outcome:
  "(email_in_use lower s (uc_email payload) \<or> phone_in_use s (uc_phone payload) \<longrightarrow>
      (\<exists>detail. create_user lower new_id now payload s = (Inl (HTTPException 400 detail), s)))
   \<and> (\<not> email_in_use lower s (uc_email payload) \<and> \<not> phone_in_use s (uc_phone payload)
       \<and> length used < 2 ^ 128 \<and> fst ` set (users s) \<subseteq> set used
       \<and> new_id = new_unique_id used \<longrightarrow>
      new_id \<notin> set used \<and> \<not> dict_contains new_id (users s)
      \<and> (\<exists>s'. create_user lower new_id now payload s = (Inr (user_read_of new_id now payload), s')
         \<and> u_id (user_read_of new_id now payload) = new_id
         \<and> users s' = users s @ [(new_id, user_read_of new_id now payload)]
         \<and> map_of (user_secrets s') new_id = Some (uc_password payload)
         \<and> (\<forall>k. k \<noteq> new_id \<longrightarrow> map_of (user_secrets s') k = map_of (user_secrets s) k)
         \<and> profiles s' = profiles s \<and> profiles_by_user s' = profiles_by_user s))"
proof (intro conjI impI)
  assume "email_in_use lower s (uc_email payload) \<or> phone_in_use s (uc_phone payload)"
  then show "\<exists>detail. create_user lower new_id now payload s = (Inl (HTTPException 400 detail), s)"
    by (auto simp: create_user_def email_exists_None phone_exists_None)
next
  assume a: "\<not> email_in_use lower s (uc_email payload) \<and> \<not> phone_in_use s (uc_phone payload)
       \<and> length used < 2 ^ 128 \<and> fst ` set (users s) \<subseteq> set used
       \<and> new_id = new_unique_id used"
  then have fresh: "new_id \<notin> set used" using new_unique_id_fresh by blast
  with a have nokey: "new_id \<notin> fst ` set (users s)" by blast
  show "new_id \<notin> set used" by (rule fresh)
  show "\<not> dict_contains new_id (users s)"
    using nokey by (simp add: dict_contains_def map_of_eq_None_iff)
  show "\<exists>s'. create_user lower new_id now payload s = (Inr (user_read_of new_id now payload), s')
         \<and> u_id (user_read_of new_id now payload) = new_id
         \<and> users s' = users s @ [(new_id, user_read_of new_id now payload)]
         \<and> map_of (user_secrets s') new_id = Some (uc_password payload)
         \<and> (\<forall>k. k \<noteq> new_id \<longrightarrow> map_of (user_secrets s') k = map_of (user_secrets s) k)
         \<and> profiles s' = profiles s \<and> profiles_by_user s' = profiles_by_user s"
    using a nokey by (intro create_user_appends) simp_all
qed

theorem create_user_outcome_witness:
  "(email_in_use str_lower scenario_stores (uc_email dup_email_req)
    \<and> create_user str_lower 0 102 dup_email_req scenario_stores
        = (Inl (HTTPException 400 ''Email already exists''), scenario_stores))
   \<and> (\<not> email_in_use str_lower scenario_stores (uc_email carol_req)
      \<and> \<not> phone_in_use scenario_stores (uc_phone carol_req)
      \<and> length [1, 2 :: uuid] < 2 ^ 128
      \<and> fst ` set (users scenario_stores) \<subseteq> set [1, 2]
      \<and> new_unique_id [1, 2] = 0
      \<and> create_user str_lower 0 102 carol_req scenario_stores
          = (Inr carol,
             scenario_stores\<lparr>users := [(1, alice), (2, bob), (0, carol)],
                              user_secrets := [(1, ''pw-a''), (2, ''pw-b''), (0, ''pw-c'')]\<rparr>))"
proof -
  have a: "email_in_use str_lower scenario_stores (uc_email dup_email_req)"
    by (simp add: email_in_use_def dict_values_def example_defs dup_email_req_def lower_eval)
  have b: "\<not> email_in_use str_lower scenario_stores (uc_email carol_req)"
    by (simp add: email_in_use_def dict_values_def example_defs lower_eval)
  have c: "\<not> phone_in_use scenario_stores (uc_phone carol_req)"
    by (simp add: phone_in_use_def dict_values_def example_defs)
  have d: "length [1, 2 :: uuid] < 2 ^ 128" by simp
  have e: "fst ` set (users scenario_stores) \<subseteq> set [1, 2]"
    by (simp add: example_defs)
  have f: "new_unique_id [1, 2] = 0" by (simp add: new_unique_id_def)
  have g: "create_user str_lower 0 102 dup_email_req scenario_stores
        = (Inl (HTTPException 400 ''Email already exists''), scenario_stores)"
    by (simp add: handler_defs example_defs dup_email_req_def lower_eval)
  have h: "create_user str_lower 0 102 carol_req scenario_stores
          = (Inr carol,
             scenario_stores\<lparr>users := [(1, alice), (2, bob), (0, carol)],
                              user_secrets := [(1, ''pw-a''), (2, ''pw-b''), (0, ''pw-c'')]\<rparr>)"
    by (simp add: handler_defs example_defs carol_def lower_eval)
  show ?thesis
    using a b c d e f g h
      create_user_outcome [where lower = str_lower and s = scenario_stores
        and payload = dup_email_req and new_id = 0 and now = 102]
      create_user_outcome [where lower = str_lower and s = scenario_stores
        and payload = carol_req and new_id = 0 and now = 102 and used = "[1, 2]"]
    by simp
qed

subsection \<open>Creating a profile\<close>

text \<open>
  Each of the three tests of create_profile raises 400 before any write: the given
  user_id is no key of the user store, or it is a key of the user-to-profile index,
  or the requested username is taken up to case by a live profile.
\<close>

lemma create_profile_rejects:
  "\<not> dict_contains (pc_user_id payload) (users s)
     \<or> dict_contains (pc_user_id payload) (profiles_by_user s)
     \<or> username_taken lower s (pc_username payload)
   \<Longrightarrow> \<exists>detail. create_profile lower new_id payload s = (Inl (HTTPException 400 detail), s)"
  by (auto simp: create_profile_def username_exists_None)

subsection \<open>Rejected requests\<close>

text \<open>
  C8: a create or update request, of a user or of a profile, that ends in an error
  leaves the four stores (users, user_secrets, profiles, profiles_by_user) exactly as
  they were before the request.
\<close>

theorem failed_request_leaves_stores:
  "(fst (create_user lower new_id now cu s) = Inl e \<longrightarrow> snd (create_user lower new_id now cu s) = s)
   \<and> (fst (update_user lower user_id uu s) = Inl e \<longrightarrow> snd (update_user lower user_id uu s) = s)
   \<and> (fst (create_profile lower new_id cp s) = Inl e \<longrightarrow> snd (create_profile lower new_id cp s) = s)
   \<and> (fst (update_profile lower profile_id pu s) = Inl e \<longrightarrow> snd (update_profile lower profile_id pu s) = s)"
  by (simp add: create_user_def update_user_def create_profile_def update_profile_def Let_def
        split: option.splits)

theorem failed_request_leaves_stores_witness:
  "(fst (create_user str_lower 3 102 bob_req scenario_stores) = Inl (HTTPException 400 ''Email already exists'')
     \<and> snd (create_user str_lower 3 102 bob_req scenario_stores) = scenario_stores)
   \<and> (fst (update_user str_lower 7 \<lparr>uu_name = Some ''Zed'', uu_email = None, uu_phone = None,
                            uu_membership_tier = None, uu_new_password = Some ''new''\<rparr> scenario_stores)
        = Inl (HTTPException 404 ''User not found'')
     \<and> snd (update_user str_lower 7 \<lparr>uu_name = Some ''Zed'', uu_email = None, uu_phone = None,
                            uu_membership_tier = None, uu_new_password = Some ''new''\<rparr> scenario_stores)
        = scenario_stores)
   \<and> (fst (update_user str_lower 2 \<lparr>uu_name = Some ''Zed'', uu_email = None, uu_phone = Some ''1'',
                            uu_membership_tier = None, uu_new_password = Some ''new''\<rparr> scenario_stores)
        = Inl (HTTPException 400 ''Phone already exists'')
     \<and> snd (update_user str_lower 2 \<lparr>uu_name = Some ''Zed'', uu_email = None, uu_phone = Some ''1'',
                            uu_membership_tier = None, uu_new_password = Some ''new''\<rparr> scenario_stores)
        = scenario_stores)
   \<and> (fst (create_profile str_lower 11 \<lparr>pc_user_id = 2, pc_username = ''Alice'', pc_details = []\<rparr> scenario_stores)
        = Inl (HTTPException 400 ''Username already exists'')
     \<and> snd (create_profile str_lower 11 \<lparr>pc_user_id = 2, pc_username = ''Alice'', pc_details = []\<rparr> scenario_stores)
        = scenario_stores)
   \<and> (fst (update_profile str_lower 12 \<lparr>pu_user_id = None, pu_username = Some ''al'', pu_details = []\<rparr> scenario_stores)
        = Inl (HTTPException 404 ''Profile not found'')
     \<and> snd (update_profile str_lower 12 \<lparr>pu_user_id = None, pu_username = Some ''al'', pu_details = []\<rparr> scenario_stores)
        = scenario_stores)"
proof -
  have a: "fst (create_user str_lower 3 102 bob_req scenario_stores) = Inl (HTTPException 400 ''Email already exists'')"
    by (simp add: handler_defs example_defs lower_eval)
  have b: "fst (update_user str_lower 7 \<lparr>uu_name = Some ''Zed'', uu_email = None, uu_phone = None,
                            uu_membership_tier = None, uu_new_password = Some ''new''\<rparr> scenario_stores)
        = Inl (HTTPException 404 ''User not found'')"
    by (simp add: handler_defs example_defs lower_eval)
  have c: "fst (update_user str_lower 2 \<lparr>uu_name = Some ''Zed'', uu_email = None, uu_phone = Some ''1'',
                            uu_membership_tier = None, uu_new_password = Some ''new''\<rparr> scenario_stores)
        = Inl (HTTPException 400 ''Phone already exists'')"
    by (simp add: handler_defs example_defs lower_eval)
  have d: "fst (create_profile str_lower 11 \<lparr>pc_user_id = 2, pc_username = ''Alice'', pc_details = []\<rparr> scenario_stores)
        = Inl (HTTPException 400 ''Username already exists'')"
    by (simp add: handler_defs example_defs lower_eval)
  have e: "fst (update_profile str_lower 12 \<lparr>pu_user_id = None, pu_username = Some ''al'', pu_details = []\<rparr> scenario_stores)
        = Inl (HTTPException 404 ''Profile not found'')"
    by (simp add: handler_defs example_defs lower_eval)
  show ?thesis
    using a b c d e
      failed_request_leaves_stores [of str_lower 3 102 bob_req scenario_stores "HTTPException 400 ''Email already exists''"]
      failed_request_leaves_stores [of str_lower _ _ _ scenario_stores "HTTPException 404 ''User not found''" 7
         "\<lparr>uu_name = Some ''Zed'', uu_email = None, uu_phone = None,
                            uu_membership_tier = None, uu_new_password = Some ''new''\<rparr>"]
      failed_request_leaves_stores [of str_lower _ _ _ scenario_stores "HTTPException 400 ''Phone already exists''" 2
         "\<lparr>uu_name = Some ''Zed'', uu_email = None, uu_phone = Some ''1'',
                            uu_membership_tier = None, uu_new_password = Some ''new''\<rparr>"]
      failed_request_leaves_stores [of str_lower 11 _ _ scenario_stores "HTTPException 400 ''Username already exists''" _ _
         "\<lparr>pc_user_id = 2, pc_username = ''Alice'', pc_details = []\<rparr>"]
      failed_request_leaves_stores [of str_lower _ _ _ scenario_stores "HTTPException 404 ''Profile not found''" _ _ _ 12
         "\<lparr>pu_user_id = None, pu_username = Some ''al'', pu_details = []\<rparr>"]
    by simp
qed

subsection \<open>Deleting a user\<close>

text \<open>
  C3, as amended: for a user id that is in the user store and owns a profile, deleting
  the user succeeds and removes the public record and the secret record; the
  user-to-profile index entry of that user and the profile record are both kept.
\<close>

theorem delete_user_effect:
  "dict_contains user_id (users s) \<Longrightarrow>
   map_of (profiles_by_user s) user_id = Some profile_id \<Longrightarrow>
   map_of (profiles s) profile_id = Some prof \<Longrightarrow>
   \<exists>s'. delete_user user_id s = (Inr (), s')
      \<and> \<not> dict_contains user_id (users s')
      \<and> \<not> dict_contains user_id (user_secrets s')
      \<and> map_of (profiles_by_user s') user_id = Some profile_id
      \<and> map_of (profiles s') profile_id = Some prof"
  by (simp add: delete_user_def dict_contains_def Let_def AList.delete_conv')

theorem delete_user_effect_witness:
  "dict_contains 1 (users scenario_stores)
   \<and> map_of (profiles_by_user scenario_stores) 1 = Some 10
   \<and> map_of (profiles scenario_stores) 10 = Some alice_profile
   \<and> delete_user 1 scenario_stores
       = (Inr (), \<lparr>users = [(2, bob)], user_secrets = [(2, ''pw-b'')],
                   profiles = [(10, alice_profile)], profiles_by_user = [(1, 10)]\<rparr>)"
proof -
  have a: "dict_contains 1 (users scenario_stores)"
    and b: "map_of (profiles_by_user scenario_stores) 1 = Some 10"
    and c: "map_of (profiles scenario_stores) 10 = Some alice_profile"
    by (simp_all add: dict_contains_def scenario_stores_def)
  from delete_user_effect [OF a b c] obtain s' where "delete_user 1 scenario_stores = (Inr (), s')"
    by blast
  then show ?thesis
    using a b c by (simp add: delete_user_def dict_contains_def scenario_stores_def Let_def)
qed

text \<open>
  The claim as stated fails: after Alice, who owns profile 10, is deleted, the index
  still maps her id to the profile.
\<close>

theorem delete_user_keeps_index_entry:
  "dict_contains 1 (users scenario_stores)
   \<and> dict_contains 1 (profiles_by_user scenario_stores)
   \<and> fst (delete_user 1 scenario_stores) = Inr ()
   \<and> dict_contains 1 (profiles_by_user (snd (delete_user 1 scenario_stores)))"
  by (simp add: delete_user_def dict_contains_def scenario_stores_def Let_def)

subsection \<open>Partial updates\<close>

lemma map_of_merge_details:
  "f \<notin> fst ` set changes \<Longrightarrow> map_of (merge_details changes cur) f = map_of cur f"
  unfolding merge_details_def
  by (induction changes arbitrary: cur) (auto simp: AList.update_conv')

lemma update_user_frame:
  "map_of (users s) user_id = Some u \<Longrightarrow>
      (\<exists>u'. map_of (users (snd (update_user lower user_id patch s))) user_id = Some u'
         \<and> u_id u' = u_id u \<and> u_created_at u' = u_created_at u
         \<and> (uu_name patch = None \<longrightarrow> u_name u' = u_name u)
         \<and> (uu_email patch = None \<longrightarrow> u_email u' = u_email u)
         \<and> (uu_phone patch = None \<longrightarrow> u_phone u' = u_phone u)
         \<and> (uu_membership_tier patch = None \<longrightarrow> u_membership_tier u' = u_membership_tier u)
         \<and> (uu_new_password patch = None \<longrightarrow>
              map_of (user_secrets (snd (update_user lower user_id patch s))) user_id
                = map_of (user_secrets s) user_id))"
  by (cases "uu_new_password patch")
     (simp_all add: update_user_def Let_def AList.update_conv')

lemma update_profile_frame:
  "map_of (profiles s) profile_id = Some p \<Longrightarrow>
      (\<exists>p'. map_of (profiles (snd (update_profile lower profile_id ppatch s))) profile_id = Some p'
         \<and> p_id p' = p_id p
         \<and> (pu_user_id ppatch = None \<longrightarrow> p_user_id p' = p_user_id p)
         \<and> (pu_username ppatch = None \<longrightarrow> p_username p' = p_username p)
         \<and> (\<forall>f. f \<notin> fst ` set (pu_details ppatch) \<longrightarrow>
              map_of (p_details p') f = map_of (p_details p) f))"
  by (simp add: update_profile_def Let_def AList.update_conv' map_of_merge_details)

text \<open>
  C5: after a partial update of an existing user or profile, every field of the stored
  record whose key is absent from the request is what it was before: the id and the
  creation timestamp always, name, email, phone and membership tier of a user, the
  owner, the username and each descriptive field of a profile; the stored password is
  kept when the request carries no new password.
\<close>

theorem partial_update_frame:
  "(map_of (users s) user_id = Some u \<longrightarrow>
      (\<exists>u'. map_of (users (snd (update_user lower user_id patch s))) user_id = Some u'
         \<and> u_id u' = u_id u \<and> u_created_at u' = u_created_at u
         \<and> (uu_name patch = None \<longrightarrow> u_name u' = u_name u)
         \<and> (uu_email patch = None \<longrightarrow> u_email u' = u_email u)
         \<and> (uu_phone patch = None \<longrightarrow> u_phone u' = u_phone u)
         \<and> (uu_membership_tier patch = None \<longrightarrow> u_membership_tier u' = u_membership_tier u)
         \<and> (uu_new_password patch = None \<longrightarrow>
              map_of (user_secrets (snd (update_user lower user_id patch s))) user_id
                = map_of (user_secrets s) user_id)))
   \<and> (map_of (profiles s) profile_id = Some p \<longrightarrow>
      (\<exists>p'. map_of (profiles (snd (update_profile lower profile_id ppatch s))) profile_id = Some p'
         \<and> p_id p' = p_id p
         \<and> (pu_user_id ppatch = None \<longrightarrow> p_user_id p' = p_user_id p)
         \<and> (pu_username ppatch = None \<longrightarrow> p_username p' = p_username p)
         \<and> (\<forall>f. f \<notin> fst ` set (pu_details ppatch) \<longrightarrow>
              map_of (p_details p') f = map_of (p_details p) f)))"
  using update_user_frame [of s user_id u lower patch]
    update_profile_frame [of s profile_id p lower ppatch]
  by blast

theorem partial_update_frame_witness:
  "map_of (users scenario_stores) 1 = Some alice
   \<and> map_of (users (snd (update_user str_lower 1 name_patch scenario_stores))) 1
        = Some (alice\<lparr>u_name := ''Alicia''\<rparr>)
   \<and> map_of (user_secrets (snd (update_user str_lower 1 name_patch scenario_stores))) 1 = Some ''pw-a''
   \<and> map_of (profiles scenario_stores) 10 = Some alice_profile
   \<and> map_of (profiles (snd (update_profile str_lower 10 bio_patch scenario_stores))) 10
        = Some (alice_profile\<lparr>p_details := [(''bio'', ''yo''), (''city'', ''NYC'')]\<rparr>)"
  using partial_update_frame [of scenario_stores 1 alice str_lower name_patch 10 alice_profile bio_patch]
  by (simp add: handler_defs example_defs lower_eval)

subsection \<open>Deleting a profile frees its owner\<close>

text \<open>
  C10: when a live user owns a live profile, deleting the profile succeeds and removes
  the owner from the user-to-profile index, and creating a profile for that user
  afterwards, with a username that no live profile has taken, succeeds and stores the
  new profile and its index entry.
\<close>

theorem recreate_profile_after_delete:
  "map_of (profiles s) profile_id = Some prof \<Longrightarrow>
   dict_contains (p_user_id prof) (users s) \<Longrightarrow>
   pc_user_id payload = p_user_id prof \<Longrightarrow>
   \<not> username_taken lower (snd (delete_profile profile_id s)) (pc_username payload) \<Longrightarrow>
   fst (delete_profile profile_id s) = Inr ()
   \<and> \<not> dict_contains (p_user_id prof) (profiles_by_user (snd (delete_profile profile_id s)))
   \<and> (\<exists>s''. create_profile lower new_id payload (snd (delete_profile profile_id s))
               = (Inr (profile_read_of new_id payload), s'')
          \<and> map_of (profiles s'') new_id = Some (profile_read_of new_id payload)
          \<and> map_of (profiles_by_user s'') (p_user_id prof) = Some new_id)"
  by (simp add: delete_profile_def create_profile_def dict_contains_def Let_def
        AList.delete_conv' AList.update_conv' username_exists_None profile_read_of_def)

theorem recreate_profile_after_delete_witness:
  "map_of (profiles scenario_stores) 10 = Some alice_profile
   \<and> dict_contains (p_user_id alice_profile) (users scenario_stores)
   \<and> pc_user_id alice_profile_req = p_user_id alice_profile
   \<and> \<not> username_taken str_lower (snd (delete_profile 10 scenario_stores)) (pc_username alice_profile_req)
   \<and> fst (delete_profile 10 scenario_stores) = Inr ()
   \<and> fst (create_profile str_lower 11 alice_profile_req (snd (delete_profile 10 scenario_stores)))
        = Inr (alice_profile\<lparr>p_id := 11\<rparr>)"
proof -
  have a: "map_of (profiles scenario_stores) 10 = Some alice_profile"
    and b: "dict_contains (p_user_id alice_profile) (users scenario_stores)"
    and c: "pc_user_id alice_profile_req = p_user_id alice_profile"
    by (simp_all add: dict_contains_def example_defs)
  have d: "\<not> username_taken str_lower (snd (delete_profile 10 scenario_stores)) (pc_username alice_profile_req)"
    by (simp add: username_taken_def handler_defs example_defs)
  from recreate_profile_after_delete [OF a b c d, where new_id = 11] show ?thesis
    using a b c d by (auto simp: profile_read_of_def example_defs)
qed

subsection \<open>A deleted user stays deleted\<close>

lemma set_update_cases:
  "p \<in> set (AList.update k v al) \<Longrightarrow> p = (k, v) \<or> p \<in> set al"
  by (induction al) (auto split: if_splits)

lemma set_delete_subset: "set (AList.delete k al) \<subseteq> set al"
  by (auto simp: AList.delete_eq)

lemma users_handle_profile_requests [simp]:
  "users (snd (create_profile lower new_id cp s)) = users s"
  "users (snd (update_profile lower profile_id pu s)) = users s"
  "users (snd (delete_profile profile_id s)) = users s"
  by (simp_all add: create_profile_def update_profile_def delete_profile_def Let_def
        split: option.splits)

lemma users_keyed_create_user: "users_keyed s \<Longrightarrow> users_keyed (snd (create_user lower new_id now payload s))"
  by (auto simp: users_keyed_def create_user_def Let_def user_read_of_def
        dest!: set_update_cases)

lemma users_keyed_update_user: "users_keyed s \<Longrightarrow> users_keyed (snd (update_user lower user_id patch s))"
  by (auto simp: users_keyed_def update_user_def Let_def
        split: option.splits dest!: set_update_cases map_of_SomeD)

lemma users_keyed_delete_user: "users_keyed s \<Longrightarrow> users_keyed (snd (delete_user user_id s))"
  using set_delete_subset [of user_id "users s"]
  by (auto simp: users_keyed_def delete_user_def Let_def)

lemma users_keyed_handle: "users_keyed s \<Longrightarrow> users_keyed (handle lower r s)"
  by (cases r)
     (simp_all add: users_keyed_create_user users_keyed_update_user users_keyed_delete_user,
      simp_all add: users_keyed_def)

lemma users_keyed_run: "users_keyed s \<Longrightarrow> users_keyed (run lower rs s)"
  unfolding run_def by (induction rs arbitrary: s) (simp_all add: users_keyed_handle)

lemma users_keyed_empty: "users_keyed empty_stores"
  by (simp add: users_keyed_def empty_stores_def)

lemma absent_user_handle:
  "user_id \<notin> fst ` set (users s) \<Longrightarrow> \<not> creates_user user_id r \<Longrightarrow>
   user_id \<notin> fst ` set (users (handle lower r s))"
proof (cases r)
  case (CreateUser new_id now payload)
  assume "user_id \<notin> fst ` set (users s)" "\<not> creates_user user_id r"
  then show ?thesis using CreateUser
    by (simp add: create_user_def Let_def AList.dom_update user_read_of_def)
next
  case (UpdateUser k patch)
  assume a: "user_id \<notin> fst ` set (users s)"
  show ?thesis
  proof (cases "map_of (users s) k")
    case None
    then show ?thesis using a UpdateUser by (simp add: update_user_def)
  next
    case (Some cur)
    then have "k \<in> fst ` set (users s)" by (force dest: map_of_SomeD)
    then have "k \<noteq> user_id" using a by auto
    then show ?thesis using a UpdateUser Some
      by (auto simp: update_user_def Let_def AList.dom_update split: option.splits)
  qed
next
  case (DeleteUser k)
  assume "user_id \<notin> fst ` set (users s)"
  then show ?thesis using DeleteUser set_delete_subset [of k "users s"]
    by (auto simp: delete_user_def Let_def)
qed simp_all

lemma absent_user_run:
  "user_id \<notin> fst ` set (users s) \<Longrightarrow> \<forall>r\<in>set rs. \<not> creates_user user_id r \<Longrightarrow>
   user_id \<notin> fst ` set (users (run lower rs s))"
  unfolding run_def by (induction rs arbitrary: s) (simp_all add: absent_user_handle)

lemma list_users_subset: "set (list_users lower name email phone tier s) \<subseteq> snd ` set (users s)"
  by (auto simp: list_users_def dict_values_def Let_def split: option.splits)

text \<open>
  C9: for a user id that is live after any history of requests from the empty stores,
  Delete succeeds, and after any later requests, none of which creates a user under
  the same id, Get on that id fails with status 404 and no List result, whatever the
  filters, holds a record with that id.
\<close>

theorem deleted_user_stays_gone:
  assumes live: "dict_contains user_id (users (run lower history empty_stores))"
    and later: "\<forall>r\<in>set later. \<not> creates_user user_id r"
  shows "fst (delete_user user_id (run lower history empty_stores)) = Inr ()
    \<and> get_user user_id (run lower later (snd (delete_user user_id (run lower history empty_stores))))
        = Inl (HTTPException 404 ''User not found'')
    \<and> (\<forall>name email phone tier.
         \<forall>u\<in>set (list_users lower name email phone tier
                    (run lower later (snd (delete_user user_id (run lower history empty_stores))))).
           u_id u \<noteq> user_id)"
proof -
  let ?s = "run lower history empty_stores"
  let ?s' = "snd (delete_user user_id ?s)"
  let ?s'' = "run lower later ?s'"
  have ok: "fst (delete_user user_id ?s) = Inr ()"
    using live by (simp add: delete_user_def Let_def)
  have "user_id \<notin> fst ` set (users ?s')"
    using live by (simp add: delete_user_def Let_def AList.delete_notin_dom)
  then have gone: "user_id \<notin> fst ` set (users ?s'')"
    using later by (rule absent_user_run)
  then have "map_of (users ?s'') user_id = None"
    by (simp add: map_of_eq_None_iff)
  then have get: "get_user user_id ?s'' = Inl (HTTPException 404 ''User not found'')"
    by (simp add: get_user_def)
  have keyed: "users_keyed ?s''"
    by (intro users_keyed_run users_keyed_delete_user users_keyed_empty)
  have "u_id u \<noteq> user_id" if "u \<in> set (list_users lower name email phone tier ?s'')"
    for name email phone tier u
  proof -
    from that list_users_subset obtain k where "(k, u) \<in> set (users ?s'')" by fastforce
    with keyed gone show ?thesis by (force simp: users_keyed_def)
  qed
  with ok get show ?thesis by blast
qed

theorem deleted_user_stays_gone_witness:
  "dict_contains 1 (users (run str_lower scenario empty_stores))
   \<and> list_all (\<lambda>r. \<not> creates_user 1 r) later_requests
   \<and> fst (delete_user 1 (run str_lower scenario empty_stores)) = Inr ()
   \<and> get_user 1 (run str_lower later_requests (snd (delete_user 1 (run str_lower scenario empty_stores))))
       = Inl (HTTPException 404 ''User not found'')
   \<and> map u_id (list_users str_lower None None None None
        (run str_lower later_requests (snd (delete_user 1 (run str_lower scenario empty_stores))))) = [2, 3]"
proof -
  have a: "dict_contains 1 (users (run str_lower scenario empty_stores))"
    by (simp add: run_scenario dict_contains_def scenario_stores_def)
  have b: "\<forall>r\<in>set later_requests. \<not> creates_user 1 r"
    by (simp add: later_requests_def)
  have c: "map u_id (list_users str_lower None None None None
        (run str_lower later_requests (snd (delete_user 1 (run str_lower scenario empty_stores))))) = [2, 3]"
    unfolding run_scenario
    by (simp add: handler_defs example_defs lower_eval)
  from deleted_user_stays_gone [OF a b] show ?thesis
    using a b c by (simp add: list_all_iff)
qed

subsection \<open>Uniqueness along guarded histories\<close>

text \<open>
  With distinct keys, assignment to a dictionary replaces the entry of the key and
  keeps every other entry; the scans with an excluded id say that a matching record
  other than the excluded one is stored.
\<close>

lemma set_update_distinct:
  "distinct (map fst al) \<Longrightarrow> set (AList.update k v al) = insert (k, v) {p \<in> set al. fst p \<noteq> k}"
  by (induction al) (auto simp: rev_image_eqI)

lemma set_delete: "set (AList.delete k al) = {p \<in> set al. fst p \<noteq> k}"
  by (auto simp: AList.delete_eq)

lemma email_exists_Some:
  "email_exists lower s e (Some k) \<longleftrightarrow>
     (\<exists>(k', u)\<in>set (users s). lower (u_email u) = lower e \<and> u_id u \<noteq> k)"
  by (force simp: email_exists_def email_scan_iff dict_values_def)

lemma phone_exists_Some:
  "phone_exists s ph (Some k) \<longleftrightarrow> (\<exists>(k', u)\<in>set (users s). u_phone u = ph \<and> u_id u \<noteq> k)"
  by (force simp: phone_exists_def phone_scan_iff dict_values_def)

lemma username_exists_Some:
  "username_exists lower s n (Some k) \<longleftrightarrow>
     (\<exists>(k', p)\<in>set (profiles s). lower (p_username p) = lower n \<and> k' \<noteq> k)"
  by (force simp: username_exists_def username_scan_iff)

text \<open>
  Every handler keeps the user invariant, an update under the proviso that its patch
  sets neither email nor phone to the empty string.
\<close>

lemma users_inv_cong: "users s' = users s \<Longrightarrow> users_inv lower s' = users_inv lower s"
  by (simp add: users_inv_def users_keyed_def users_unique_def)

lemma users_inv_update:
  assumes inv: "users_inv lower s"
    and us: "users s' = AList.update k v (users s)"
    and key: "u_id v = k"
    and fresh: "\<forall>(k', u)\<in>set (users s). k' \<noteq> k \<longrightarrow>
                  lower (u_email u) \<noteq> lower (u_email v) \<and> u_phone u \<noteq> u_phone v"
  shows "users_inv lower s'"
proof -
  have d: "distinct (map fst (users s))" using inv by (simp add: users_inv_def)
  have "distinct (map fst (users s'))" using d by (simp add: us AList.distinct_update)
  moreover have "users_keyed s'"
    using inv key by (auto simp: users_inv_def users_keyed_def us set_update_distinct [OF d])
  moreover have "users_unique lower s'"
    using inv fresh
    unfolding users_inv_def users_unique_def us set_update_distinct [OF d]
    by (auto; metis)
  ultimately show ?thesis by (simp add: users_inv_def)
qed

lemma users_inv_delete:
  assumes inv: "users_inv lower s" and us: "users s' = AList.delete k (users s)"
  shows "users_inv lower s'"
  using inv
  by (auto simp: users_inv_def users_keyed_def users_unique_def us set_delete
        AList.distinct_delete)

lemma users_inv_create_user:
  assumes "users_inv lower s"
  shows "users_inv lower (snd (create_user lower new_id now payload s))"
proof (cases "email_in_use lower s (uc_email payload) \<or> phone_in_use s (uc_phone payload)")
  case True
  then show ?thesis using assms
    by (auto simp: create_user_def email_exists_None phone_exists_None)
next
  case False
  then have fresh: "\<forall>(k, u)\<in>set (users s). k \<noteq> new_id \<longrightarrow>
      lower (u_email u) \<noteq> lower (u_email (user_read_of new_id now payload))
      \<and> u_phone u \<noteq> u_phone (user_read_of new_id now payload)"
    by (force simp: email_in_use_def phone_in_use_def dict_values_def user_read_of_def)
  have us: "users (snd (create_user lower new_id now payload s))
      = AList.update new_id (user_read_of new_id now payload) (users s)"
    using False by (simp add: create_user_def email_exists_None phone_exists_None Let_def user_read_of_def)
  show ?thesis
    by (rule users_inv_update [OF assms us _ fresh]) (simp add: user_read_of_def)
qed

lemma users_inv_update_user:
  assumes inv: "users_inv lower s"
    and g: "uu_email patch \<noteq> Some []" "uu_phone patch \<noteq> Some []"
  shows "users_inv lower (snd (update_user lower user_id patch s))"
proof (cases "map_of (users s) user_id")
  case None
  then show ?thesis using inv by (simp add: update_user_def)
next
  case (Some cur)
  then have cur: "(user_id, cur) \<in> set (users s)" by (rule map_of_SomeD)
  let ?upd = "cur\<lparr>u_name := merged (uu_name patch) (u_name cur),
                     u_email := merged (uu_email patch) (u_email cur),
                     u_phone := merged (uu_phone patch) (u_phone cur),
                     u_membership_tier :=
                       merged (uu_membership_tier patch) (u_membership_tier cur)\<rparr>"
  show ?thesis
  proof (cases "(truthy (uu_email patch) \<and> email_exists lower s (the (uu_email patch)) (Some user_id))
      \<or> (truthy (uu_phone patch) \<and> phone_exists s (the (uu_phone patch)) (Some user_id))")
    case True
    then show ?thesis using inv Some by (auto simp: update_user_def)
  next
    case False
    then have us: "users (snd (update_user lower user_id patch s)) = AList.update user_id ?upd (users s)"
      using Some by (auto simp: update_user_def Let_def split: option.splits)
    have key: "u_id ?upd = user_id"
      using inv cur by (auto simp: users_inv_def users_keyed_def)
    have keyed: "\<And>k u. (k, u) \<in> set (users s) \<Longrightarrow> u_id u = k"
      using inv by (auto simp: users_inv_def users_keyed_def)
    have uniq: "\<And>k u. (k, u) \<in> set (users s) \<Longrightarrow> k \<noteq> user_id \<Longrightarrow>
        lower (u_email u) \<noteq> lower (u_email cur) \<and> u_phone u \<noteq> u_phone cur"
      using inv cur by (auto simp: users_inv_def users_unique_def)
    have fresh: "\<forall>(k', u)\<in>set (users s). k' \<noteq> user_id \<longrightarrow>
        lower (u_email u) \<noteq> lower (u_email ?upd) \<and> u_phone u \<noteq> u_phone ?upd"
    proof (clarify, intro conjI)
      fix k u assume m: "(k, u) \<in> set (users s)" and ne: "k \<noteq> user_id"
      show "lower (u_email u) \<noteq> lower (u_email ?upd)"
      proof (cases "uu_email patch")
        case None
        then show ?thesis using uniq [OF m ne] by simp
      next
        case (Some e)
        with g have "truthy (uu_email patch)" by simp
        with False Some have "\<not> email_exists lower s e (Some user_id)" by simp
        with m keyed [OF m] ne Some show ?thesis by (auto simp: email_exists_Some)
      qed
      show "u_phone u \<noteq> u_phone ?upd"
      proof (cases "uu_phone patch")
        case None
        then show ?thesis using uniq [OF m ne] by simp
      next
        case (Some ph)
        with g have "truthy (uu_phone patch)" by simp
        with False Some have "\<not> phone_exists s ph (Some user_id)" by simp
        with m keyed [OF m] ne Some show ?thesis by (auto simp: phone_exists_Some)
      qed
    qed
    show ?thesis by (rule users_inv_update [OF inv us key fresh])
  qed
qed

lemma users_inv_delete_user: "users_inv lower s \<Longrightarrow> users_inv lower (snd (delete_user user_id s))"
  by (cases "dict_contains user_id (users s)")
     (auto simp: delete_user_def Let_def intro: users_inv_delete)

lemma users_inv_handle: "users_inv lower s \<Longrightarrow> guarded r \<Longrightarrow> users_inv lower (handle lower r s)"
proof (cases r)
  case (CreateProfile new_id payload)
  assume "users_inv lower s" then show ?thesis
    using CreateProfile users_inv_cong [of "snd (create_profile lower new_id payload s)" s]
    by (simp add: create_profile_def Let_def)
next
  case (UpdateProfile k patch)
  assume "users_inv lower s" then show ?thesis
    using UpdateProfile users_inv_cong [of "snd (update_profile lower k patch s)" s]
    by (simp add: update_profile_def Let_def split: option.splits)
next
  case (DeleteProfile k)
  assume "users_inv lower s" then show ?thesis
    using DeleteProfile users_inv_cong [of "snd (delete_profile k s)" s]
    by (simp add: delete_profile_def Let_def split: option.splits)
qed (simp_all add: users_inv_create_user users_inv_update_user users_inv_delete_user)

lemma users_inv_run: "users_inv lower s \<Longrightarrow> \<forall>r\<in>set rs. guarded r \<Longrightarrow> users_inv lower (run lower rs s)"
  unfolding run_def by (induction rs arbitrary: s) (simp_all add: users_inv_handle)

lemma users_inv_empty: "users_inv lower empty_stores"
  by (simp add: users_inv_def users_keyed_def users_unique_def empty_stores_def)

text \<open>
  So, from the empty stores, no guarded history leads to two live users with the same
  email up to case or the same phone.
\<close>

lemma users_unique_guarded:
  "\<forall>r\<in>set rs. guarded r \<Longrightarrow> users_unique lower (run lower rs empty_stores)"
  using users_inv_run [OF users_inv_empty] by (simp add: users_inv_def)

text \<open>
  The same for profiles: the handlers keep the profile invariant, an update under the
  proviso that its patch carries no user_id and does not set the username to the
  empty string.
\<close>

lemma profiles_inv_cong:
  "profiles s' = profiles s \<Longrightarrow> profiles_by_user s' = profiles_by_user s \<Longrightarrow>
   profiles_inv lower s' = profiles_inv lower s"
  by (simp add: profiles_inv_def index_covers_def profiles_unique_def)

lemma profiles_inv_create_profile:
  assumes inv: "profiles_inv lower s"
  shows "profiles_inv lower (snd (create_profile lower new_id payload s))"
proof (cases "\<not> dict_contains (pc_user_id payload) (users s)
     \<or> dict_contains (pc_user_id payload) (profiles_by_user s)
     \<or> username_taken lower s (pc_username payload)")
  case True
  then show ?thesis using inv by (auto simp: create_profile_def username_exists_None)
next
  case False
  let ?p = "profile_read_of new_id payload"
  let ?s' = "snd (create_profile lower new_id payload s)"
  have ps: "profiles ?s' = AList.update new_id ?p (profiles s)"
    and ix: "profiles_by_user ?s' = AList.update (pc_user_id payload) new_id (profiles_by_user s)"
    using False by (simp_all add: create_profile_def username_exists_None Let_def profile_read_of_def)
  have d: "distinct (map fst (profiles s))" using inv by (simp add: profiles_inv_def)
  have free: "map_of (profiles_by_user s) (pc_user_id payload) = None"
    using False by (simp add: dict_contains_def)
  have other: "p_user_id p \<noteq> pc_user_id payload \<and> lower (p_username p) \<noteq> lower (pc_username payload)"
    if "(k, p) \<in> set (profiles s)" for k p
  proof -
    from inv that have "map_of (profiles_by_user s) (p_user_id p) = Some k"
      by (auto simp: profiles_inv_def index_covers_def)
    with free have "p_user_id p \<noteq> pc_user_id payload" by auto
    moreover from False that have "lower (p_username p) \<noteq> lower (pc_username payload)"
      by (force simp: username_taken_def dict_values_def)
    ultimately show ?thesis by simp
  qed
  have "distinct (map fst (profiles ?s'))" using d by (simp add: ps AList.distinct_update)
  moreover have "index_covers ?s'"
    using inv other
    by (auto simp: profiles_inv_def index_covers_def ps ix set_update_distinct [OF d]
          AList.update_conv' profile_read_of_def)
  moreover have "profiles_unique lower ?s'"
    using inv other
    unfolding profiles_inv_def profiles_unique_def ps set_update_distinct [OF d]
    by (auto simp: profile_read_of_def; metis)
  ultimately show ?thesis by (simp add: profiles_inv_def)
qed

lemma profiles_inv_update_profile:
  assumes inv: "profiles_inv lower s"
    and g: "pu_username patch \<noteq> Some []" "pu_user_id patch = None"
  shows "profiles_inv lower (snd (update_profile lower profile_id patch s))"
proof (cases "map_of (profiles s) profile_id")
  case None
  then show ?thesis using inv by (simp add: update_profile_def)
next
  case (Some cur)
  then have cur: "(profile_id, cur) \<in> set (profiles s)" by (rule map_of_SomeD)
  let ?upd = "cur\<lparr>p_user_id := merged (pu_user_id patch) (p_user_id cur),
                     p_username := merged (pu_username patch) (p_username cur),
                     p_details := merge_details (pu_details patch) (p_details cur)\<rparr>"
  let ?s' = "snd (update_profile lower profile_id patch s)"
  show ?thesis
  proof (cases "truthy (pu_username patch)
      \<and> username_exists lower s (the (pu_username patch)) (Some profile_id)")
    case True
    then show ?thesis using inv Some by (auto simp: update_profile_def)
  next
    case False
    then have ps: "profiles ?s' = AList.update profile_id ?upd (profiles s)"
      and ix: "profiles_by_user ?s' = profiles_by_user s"
      using Some by (auto simp: update_profile_def Let_def)
    have d: "distinct (map fst (profiles s))" using inv by (simp add: profiles_inv_def)
    have owner: "p_user_id ?upd = p_user_id cur" using g by simp
    have uniq: "\<And>k p. (k, p) \<in> set (profiles s) \<Longrightarrow> k \<noteq> profile_id \<Longrightarrow>
        lower (p_username p) \<noteq> lower (p_username cur) \<and> p_user_id p \<noteq> p_user_id cur"
      using inv cur by (auto simp: profiles_inv_def profiles_unique_def)
    have name: "lower (p_username p) \<noteq> lower (p_username ?upd)"
      if m: "(k, p) \<in> set (profiles s)" and ne: "k \<noteq> profile_id" for k p
    proof (cases "pu_username patch")
      case None
      then show ?thesis using uniq [OF m ne] by simp
    next
      case (Some n)
      with g have "truthy (pu_username patch)" by simp
      with False Some have "\<not> username_exists lower s n (Some profile_id)" by simp
      with m ne Some show ?thesis by (auto simp: username_exists_Some)
    qed
    have "distinct (map fst (profiles ?s'))" using d by (simp add: ps AList.distinct_update)
    moreover have "index_covers ?s'"
      using inv cur owner
      by (auto simp: profiles_inv_def index_covers_def ps ix set_update_distinct [OF d])
    moreover have "profiles_unique lower ?s'"
      using inv name uniq owner
      unfolding profiles_inv_def profiles_unique_def ps set_update_distinct [OF d]
      by (auto; metis)
    ultimately show ?thesis by (simp add: profiles_inv_def)
  qed
qed

lemma profiles_inv_delete_profile:
  assumes inv: "profiles_inv lower s"
  shows "profiles_inv lower (snd (delete_profile profile_id s))"
proof (cases "map_of (profiles s) profile_id")
  case None
  then show ?thesis using inv by (simp add: delete_profile_def)
next
  case (Some prof)
  then have cur: "(profile_id, prof) \<in> set (profiles s)" by (rule map_of_SomeD)
  let ?s' = "snd (delete_profile profile_id s)"
  have ps: "profiles ?s' = AList.delete profile_id (profiles s)"
    and ix: "profiles_by_user ?s' = AList.delete (p_user_id prof) (profiles_by_user s)"
    using Some by (simp_all add: delete_profile_def Let_def)
  have own: "map_of (profiles_by_user s) (p_user_id prof) = Some profile_id"
    using inv cur by (auto simp: profiles_inv_def index_covers_def)
  have "distinct (map fst (profiles ?s'))"
    using inv by (simp add: ps profiles_inv_def AList.distinct_delete)
  moreover have "index_covers ?s'"
    using inv own
    by (auto simp: profiles_inv_def index_covers_def ps ix set_delete AList.delete_conv')
  moreover have "profiles_unique lower ?s'"
    using inv by (auto simp: profiles_inv_def profiles_unique_def ps set_delete)
  ultimately show ?thesis by (simp add: profiles_inv_def)
qed

lemma profiles_inv_handle: "profiles_inv lower s \<Longrightarrow> guarded r \<Longrightarrow> profiles_inv lower (handle lower r s)"
proof (cases r)
  case (CreateUser new_id now payload)
  assume "profiles_inv lower s" then show ?thesis
    using CreateUser profiles_inv_cong [of "snd (create_user lower new_id now payload s)" s]
    by (simp add: create_user_def Let_def)
next
  case (UpdateUser k patch)
  assume "profiles_inv lower s" then show ?thesis
    using UpdateUser profiles_inv_cong [of "snd (update_user lower k patch s)" s]
    by (simp add: update_user_def Let_def split: option.splits)
next
  case (DeleteUser k)
  assume "profiles_inv lower s" then show ?thesis
    using DeleteUser profiles_inv_cong [of "snd (delete_user k s)" s]
    by (simp add: delete_user_def Let_def)
qed (simp_all add: profiles_inv_create_profile profiles_inv_update_profile
       profiles_inv_delete_profile)

lemma profiles_inv_run:
  "profiles_inv lower s \<Longrightarrow> \<forall>r\<in>set rs. guarded r \<Longrightarrow> profiles_inv lower (run lower rs s)"
  unfolding run_def by (induction rs arbitrary: s) (simp_all add: profiles_inv_handle)

lemma profiles_inv_empty: "profiles_inv lower empty_stores"
  by (simp add: profiles_inv_def index_covers_def profiles_unique_def empty_stores_def)

text \<open>
  Under the profile invariant the owner of a live profile is a key of the index, so
  the index test of create_profile finds every user who owns a profile.
\<close>

lemma owner_in_index:
  "profiles_inv lower s \<Longrightarrow> (k, p) \<in> set (profiles s) \<Longrightarrow>
   dict_contains (p_user_id p) (profiles_by_user s)"
  by (auto simp: profiles_inv_def index_covers_def dict_contains_def)

text \<open>
  So, in a state where the profile invariant holds, creating a profile for a user who
  owns a live profile fails with status 400 and changes nothing.
\<close>

lemma create_profile_rejects_owner:
  "profiles_inv lower s \<Longrightarrow> (k, p) \<in> set (profiles s) \<Longrightarrow>
   p_user_id p = pc_user_id payload \<Longrightarrow>
   \<exists>detail. create_profile lower new_id payload s = (Inl (HTTPException 400 detail), s)"
  using owner_in_index [of lower s k p] create_profile_rejects [of payload s lower new_id]
  by auto

text \<open>
  From the empty stores, no guarded history leads to two live profiles with the same
  username up to case or the same owner.
\<close>

lemma profiles_unique_guarded:
  "\<forall>r\<in>set rs. guarded r \<Longrightarrow> profiles_unique lower (run lower rs empty_stores)"
  using profiles_inv_run [OF profiles_inv_empty] by (simp add: profiles_inv_def)

subsection \<open>Unguarded updates\<close>

text \<open>
  C1 says that after any history of requests no two live users share an email up to
  case or a phone. update_user tests \<open>if new_phone and ...\<close> before it scans for
  the phone (and likewise for the email), so for the empty string the scan is skipped:
  after Alice and Bob are created with phones 1 and 2 and each is patched to the empty
  phone, both updates succeed and List shows the two users with the same phone.
\<close>

theorem update_user_shares_empty_phone:
  "map (\<lambda>u. (u_id u, u_phone u))
     (list_users str_lower None None None None
        (run str_lower [CreateUser 1 100 alice_req, CreateUser 2 101 bob_req,
              UpdateUser 1 empty_phone_patch, UpdateUser 2 empty_phone_patch] empty_stores))
   = [(1, ''''), (2, '''')]"
  by (simp add: handler_defs example_defs lower_eval)

text \<open>
  C2 says that after any history of requests no two live profiles share a username up
  to case, and no user id owns two live profiles. update_profile tests
  \<open>if new_username and ...\<close> before it scans for the username, so for the empty
  string the scan is skipped: after the profiles of Alice and Bob are each patched to
  the empty username, both updates succeed and List shows the two profiles with the
  same username.
\<close>

theorem update_profile_shares_empty_username:
  "map (\<lambda>p. (p_id p, p_username p))
     (list_profiles str_lower None None
        (run str_lower (scenario @ [CreateProfile 11 bob_profile_req,
                UpdateProfile 10 empty_username_patch,
                UpdateProfile 11 empty_username_patch]) empty_stores))
   = [(10, ''''), (11, '''')]"
  by (simp add: handler_defs example_defs lower_eval)

text \<open>
  C4 says that a profile update never changes the stored user_id, whatever the patch
  carries. update_profile merges every key of the patch into the record: a patch that
  carries user_id 2 for the profile of Alice, owned by user 1, succeeds and stores the
  profile with owner 2.
\<close>

theorem update_profile_changes_owner:
  "map_of (profiles scenario_stores) 10 = Some alice_profile
   \<and> p_user_id alice_profile = 1
   \<and> update_profile lower 10 owner_patch scenario_stores
      = (Inr (alice_profile\<lparr>p_user_id := 2\<rparr>),
         scenario_stores\<lparr>profiles := [(10, alice_profile\<lparr>p_user_id := 2\<rparr>)]\<rparr>)"
  by (simp add: handler_defs example_defs lower_eval)

text \<open>
  C7 says that creating a profile fails with status 400, and creates nothing, whenever
  the given user_id references no live user, or that user already owns a profile, or
  the requested username is taken up to case. create_profile reads ownership off the
  user-to-profile index, and update_profile changes the owner of a profile without
  touching the index: after the profile of Alice is patched to owner 2, Bob (user 2)
  owns the live profile 10, the index has no entry for him, and creating a profile
  for him succeeds, which leaves him with two live profiles.
\<close>

theorem create_profile_second_for_owner:
  "dict_contains 2
     (users (run str_lower (scenario @ [UpdateProfile 10 owner_patch]) empty_stores))
   \<and> map (\<lambda>p. (p_id p, p_user_id p))
     (list_profiles str_lower None None
        (run str_lower (scenario @ [UpdateProfile 10 owner_patch]) empty_stores))
   = [(10, 2)]
   \<and> fst (create_profile str_lower 11 bob_profile_req
          (run str_lower (scenario @ [UpdateProfile 10 owner_patch]) empty_stores))
     = Inr \<lparr>p_id = 11, p_user_id = 2, p_username = ''bob'', p_details = []\<rparr>
   \<and> map (\<lambda>p. (p_id p, p_user_id p))
       (list_profiles str_lower None None
          (run str_lower (scenario @ [UpdateProfile 10 owner_patch,
             CreateProfile 11 bob_profile_req]) empty_stores))
     = [(10, 2), (11, 2)]"
  by (simp add: handler_defs example_defs lower_eval)

end
